theory Spec2Isabelle
  imports Complex_Main "HOL-Library.Sublist"
begin

section \<open>JavaScript values\<close>

text \<open>
  \<^verbatim>\<open>App.js\<close> is untyped JavaScript: a spreadsheet cell, a property of a row and a field
  of a cleaned record is a primitive value. A string is a \<^typ>\<open>string\<close>; a character stands
  for the UTF-16 code unit of the same number (U+0000 to U+00FF).

  A finite number is the rational it denotes. The rounding of the mantissa to 53 bits is
  not part of the model, the range of a double is: a magnitude that rounds to
  \<^verbatim>\<open>Infinity\<close> or to zero does so here too. Minus zero is identified with zero (both
  are falsy, finite and print as \<^verbatim>\<open>0\<close>).
\<close>

datatype jsnum = NaN | PosInfinity | NegInfinity | Fin rat

datatype jsval = Undefined | Null | Bool bool | Num jsnum | Str string

text \<open>What a \<^verbatim>\<open>throw\<close> carries: a \<^verbatim>\<open>TypeError\<close> of the language, or whatever a library
  call (the document picker, the file system, the spreadsheet reader) rejects with.\<close>

datatype exn = TypeError | LibraryError

text \<open>\<^verbatim>\<open>ToBoolean\<close>: \<^verbatim>\<open>undefined\<close>, \<^verbatim>\<open>null\<close>, \<^verbatim>\<open>false\<close>, \<^verbatim>\<open>0\<close>, \<^verbatim>\<open>NaN\<close> and
  \<^verbatim>\<open>''\<close> are falsy.\<close>

fun truthy :: "jsval \<Rightarrow> bool" where
  "truthy Undefined = False"
| "truthy Null = False"
| "truthy (Bool b) = b"
| "truthy (Num NaN) = False"
| "truthy (Num PosInfinity) = True"
| "truthy (Num NegInfinity) = True"
| "truthy (Num (Fin x)) = (x \<noteq> 0)"
| "truthy (Str s) = (s \<noteq> [])"

text \<open>\<^verbatim>\<open>a || b\<close>\<close>

definition lor :: "jsval \<Rightarrow> jsval \<Rightarrow> jsval" where
  "lor a b = (if truthy a then a else b)"

subsection \<open>Decimal digits\<close>

definition digit_char :: "nat \<Rightarrow> char" where
  "digit_char d = char_of (48 + d)"

definition is_digit :: "char \<Rightarrow> bool" where
  "is_digit c = (let n = (of_char c :: nat) in 48 \<le> n \<and> n \<le> 57)"

definition digit_val :: "char \<Rightarrow> nat" where
  "digit_val c = of_char c - 48"

text \<open>The decimal representation of a non-negative integer, as \<^verbatim>\<open>String(idx)\<close> and
  a template literal give it for an array index.\<close>

fun digits10 :: "nat \<Rightarrow> string" where
  "digits10 n = (if n < 10 then [digit_char n] else digits10 (n div 10) @ [digit_char (n mod 10)])"

declare digits10.simps [simp del]

definition digits_val :: "string \<Rightarrow> nat" where
  "digits_val ds = foldl (\<lambda>acc c. 10 * acc + digit_val c) 0 ds"

subsection \<open>\<^verbatim>\<open>Number::toString\<close>\<close>

text \<open>
  For a positive finite \<open>x\<close> the language takes integers \<open>n\<close>, \<open>k\<close>, \<open>s\<close> with
  \<open>10 ^ (k - 1) \<le> s < 10 ^ k\<close>, \<open>s * 10 ^ (n - k) = x\<close> and \<open>k\<close> as small as possible.
  \<open>scale10\<close> multiplies by ten until the value is an integer; the fuel covers the 1074
  fractional digits of the smallest double.
\<close>

definition is_integer :: "rat \<Rightarrow> bool" where
  "is_integer x = (x = of_int \<lfloor>x\<rfloor>)"

fun scale10 :: "nat \<Rightarrow> rat \<Rightarrow> int \<Rightarrow> rat \<times> int" where
  "scale10 0 x e = (x, e)"
| "scale10 (Suc fuel) x e = (if is_integer x then (x, e) else scale10 fuel (x * 10) (e - 1))"

definition exponent_string :: "int \<Rightarrow> string" where
  "exponent_string e = (if e < 0 then ''-'' else ''+'') @ digits10 (nat \<bar>e\<bar>)"

definition pos_to_string :: "rat \<Rightarrow> string" where
  "pos_to_string x =
     (let (xi, e1) = scale10 1100 x 0;
          ds = digits10 (nat \<lfloor>xi\<rfloor>);
          tz = length (takeWhile (\<lambda>c. c = CHR ''0'') (rev ds));
          s = take (length ds - tz) ds;
          k = int (length s);
          n = k + e1 + int tz
      in if k \<le> n \<and> n \<le> 21 then s @ replicate (nat (n - k)) CHR ''0''
         else if 0 < n \<and> n \<le> 21 then take (nat n) s @ ''.'' @ drop (nat n) s
         else if -6 < n \<and> n \<le> 0 then ''0.'' @ replicate (nat (- n)) CHR ''0'' @ s
         else if k = 1 then s @ ''e'' @ exponent_string (n - 1)
         else take 1 s @ ''.'' @ drop 1 s @ ''e'' @ exponent_string (n - 1))"

fun Number_toString :: "jsnum \<Rightarrow> string" where
  "Number_toString NaN = ''NaN''"
| "Number_toString PosInfinity = ''Infinity''"
| "Number_toString NegInfinity = ''-Infinity''"
| "Number_toString (Fin x) =
     (if x = 0 then ''0''
      else if x < 0 then ''-'' @ pos_to_string (- x)
      else pos_to_string x)"

text \<open>\<^verbatim>\<open>String(v)\<close>, also the conversion inside a template literal.\<close>

fun String_js :: "jsval \<Rightarrow> string" where
  "String_js Undefined = ''undefined''"
| "String_js Null = ''null''"
| "String_js (Bool b) = (if b then ''true'' else ''false'')"
| "String_js (Num n) = Number_toString n"
| "String_js (Str s) = s"

subsection \<open>Strings\<close>

text \<open>White space and line terminators below U+0100: TAB, LF, VT, FF, CR, SP, NBSP.\<close>

definition is_ws :: "char \<Rightarrow> bool" where
  "is_ws c = (let n = (of_char c :: nat) in (9 \<le> n \<and> n \<le> 13) \<or> n = 32 \<or> n = 160)"

definition trimStart :: "string \<Rightarrow> string" where
  "trimStart s = dropWhile is_ws s"

text \<open>\<^verbatim>\<open>s.trim()\<close>\<close>

definition trim :: "string \<Rightarrow> string" where
  "trim s = rev (dropWhile is_ws (rev (dropWhile is_ws s)))"

text \<open>\<^verbatim>\<open>s.toLowerCase()\<close>: A to Z, and the capital letters U+00C0 to U+00DE
  (U+00D7 is the multiplication sign), move up by 32.\<close>

definition lower_char :: "char \<Rightarrow> char" where
  "lower_char c =
     (let n = (of_char c :: nat)
      in if (65 \<le> n \<and> n \<le> 90) \<or> (192 \<le> n \<and> n \<le> 222 \<and> n \<noteq> 215) then char_of (n + 32) else c)"

definition toLowerCase :: "string \<Rightarrow> string" where
  "toLowerCase s = map lower_char s"

text \<open>\<^verbatim>\<open>s.includes(q)\<close>: \<open>q\<close> occurs in \<open>s\<close> at some position.\<close>

fun includes_js :: "string \<Rightarrow> string \<Rightarrow> bool" where
  "includes_js [] q = (q = [])"
| "includes_js (c # cs) q = (prefix q (c # cs) \<or> includes_js cs q)"

text \<open>\<^verbatim>\<open>s.replace(',', '.')\<close> with a string pattern replaces the first occurrence only.\<close>

fun replace_comma :: "string \<Rightarrow> string" where
  "replace_comma [] = []"
| "replace_comma (c # cs) = (if c = CHR '','' then CHR ''.'' # cs else c # replace_comma cs)"

subsection \<open>\<^verbatim>\<open>parseFloat\<close>\<close>

text \<open>
  \<^verbatim>\<open>parseFloat\<close> drops leading white space and reads the longest prefix that is a
  \<^verbatim>\<open>StrDecimalLiteral\<close>: an optional sign, then \<^verbatim>\<open>Infinity\<close> or digits with an optional
  fraction and an optional exponent; at least one digit before the exponent. With no such
  prefix the result is \<^verbatim>\<open>NaN\<close>.
\<close>

text \<open>The range of a double: from \<open>2 ^ 1024 - 2 ^ 970\<close> on a magnitude rounds to infinity,
  up to \<open>2 ^ -1075\<close> it rounds to zero.\<close>

definition to_double :: "rat \<Rightarrow> jsnum" where
  "to_double x =
     (if of_int (2 ^ 1024 - 2 ^ 970) \<le> \<bar>x\<bar> then (if x < 0 then NegInfinity else PosInfinity)
      else if \<bar>x\<bar> * of_int (2 ^ 1075) \<le> 1 then Fin 0
      else Fin x)"

text \<open>The exponent part after the mantissa: \<^verbatim>\<open>e\<close> or \<^verbatim>\<open>E\<close>, an optional sign, at least
  one digit; anything else is not part of the literal.\<close>

definition parse_exponent :: "string \<Rightarrow> int" where
  "parse_exponent s =
     (case s of
        [] \<Rightarrow> 0
      | c # r \<Rightarrow>
          if c = CHR ''e'' \<or> c = CHR ''E'' then
            (case r of
               [] \<Rightarrow> 0
             | d # r' \<Rightarrow>
                 if d = CHR ''+'' then
                   (if takeWhile is_digit r' = [] then 0 else int (digits_val (takeWhile is_digit r')))
                 else if d = CHR ''-'' then
                   (if takeWhile is_digit r' = [] then 0 else - int (digits_val (takeWhile is_digit r')))
                 else if takeWhile is_digit r = [] then 0
                 else int (digits_val (takeWhile is_digit r)))
          else 0)"

definition pow10 :: "int \<Rightarrow> rat" where
  "pow10 e = (if e < 0 then 1 / of_int (10 ^ nat (- e)) else of_int (10 ^ nat e))"

definition parse_unsigned :: "string \<Rightarrow> jsnum" where
  "parse_unsigned s =
     (if prefix ''Infinity'' s then PosInfinity
      else
        let ip = takeWhile is_digit s;
            r1 = dropWhile is_digit s;
            fp = (case r1 of [] \<Rightarrow> [] | c # r \<Rightarrow> if c = CHR ''.'' then takeWhile is_digit r else []);
            r2 = (case r1 of [] \<Rightarrow> [] | c # r \<Rightarrow> if c = CHR ''.'' then dropWhile is_digit r else r1)
        in if ip = [] \<and> fp = [] then NaN
           else to_double (of_nat (digits_val (ip @ fp)) * pow10 (parse_exponent r2 - int (length fp))))"

fun negate :: "jsnum \<Rightarrow> jsnum" where
  "negate NaN = NaN"
| "negate PosInfinity = NegInfinity"
| "negate NegInfinity = PosInfinity"
| "negate (Fin x) = Fin (- x)"

definition parseFloat :: "string \<Rightarrow> jsnum" where
  "parseFloat str =
     (case trimStart str of
        [] \<Rightarrow> NaN
      | c # r \<Rightarrow>
          if c = CHR ''-'' then negate (parse_unsigned r)
          else if c = CHR ''+'' then parse_unsigned r
          else parse_unsigned (c # r))"

text \<open>\<^verbatim>\<open>Number.isFinite(v)\<close>: no conversion, so only a finite number passes.\<close>

fun Number_isFinite :: "jsval \<Rightarrow> bool" where
  "Number_isFinite (Num (Fin x)) = True"
| "Number_isFinite v = False"

section \<open>The cleaned records\<close>

text \<open>
  \<^verbatim>\<open>
  const safeFloat = (v) => {
    const n = parseFloat(String(v).replace(',', '.'));
    return Number.isFinite(n) ? n : null;
  };
  \<close>
\<close>

definition safeFloat :: "jsval \<Rightarrow> jsval" where
  "safeFloat v =
     (let n = parseFloat (replace_comma (String_js v))
      in if Number_isFinite (Num n) then Num n else Null)"

text \<open>
  A raw row is the object \<^verbatim>\<open>sheet_to_json\<close> builds for one sheet row: a property for
  each header of the sheet. \<^verbatim>\<open>r.Name\<close> reads the property of exactly that name, and
  is \<^verbatim>\<open>undefined\<close> when the row has none.
\<close>

type_synonym rawrow = "string \<rightharpoonup> jsval"

definition get :: "rawrow \<Rightarrow> string \<Rightarrow> jsval" where
  "get r k = (case r k of None \<Rightarrow> Undefined | Some v \<Rightarrow> v)"

record Record =
  id' :: string
  name :: jsval
  address :: jsval
  city :: jsval
  state :: jsval
  country :: jsval
  lat :: jsval
  lng :: jsval
  phone :: jsval
  website :: jsval
  cuisine :: jsval
  "notes" :: jsval

text \<open>The callback of \<^verbatim>\<open>rows.map((r, idx) => ({ ... }))\<close>, lines 47 to 60.\<close>

definition cleaned_row :: "nat \<Rightarrow> rawrow \<Rightarrow> Record" where
  "cleaned_row idx r =
     \<lparr> id' = digits10 idx @ ''-'' @
             String_js (lor (lor (lor (get r ''Name'') (get r ''name'')) (get r ''Title'')) (Str '''')),
       name = lor (lor (lor (get r ''Name'') (get r ''name'')) (get r ''Title'')) (Str ''Unnamed''),
       address = lor (lor (get r ''Address'') (get r ''address'')) (Str ''''),
       city = lor (lor (get r ''City'') (get r ''city'')) (Str ''''),
       state = lor (lor (get r ''State'') (get r ''state'')) (Str ''''),
       country = lor (lor (get r ''Country'') (get r ''country'')) (Str ''''),
       lat = safeFloat (lor (lor (get r ''Latitude'') (get r ''latitude'')) (get r ''lat'')),
       lng = safeFloat (lor (lor (get r ''Longitude'') (get r ''longitude'')) (get r ''lng'')),
       phone = lor (lor (get r ''Phone'') (get r ''phone'')) (Str ''''),
       website = lor (lor (get r ''Website'') (get r ''website'')) (Str ''''),
       cuisine = lor (lor (get r ''Cuisine'') (get r ''cuisine'')) (Str ''''),
       notes = lor (lor (get r ''Notes'') (get r ''notes'')) (Str '''') \<rparr>"

text \<open>\<^verbatim>\<open>rows.map\<close> hands the callback each row with its zero-based position.\<close>

fun map_idx :: "(nat \<Rightarrow> 'a \<Rightarrow> 'b) \<Rightarrow> nat \<Rightarrow> 'a list \<Rightarrow> 'b list" where
  "map_idx f i [] = []"
| "map_idx f i (x # xs) = f i x # map_idx f (Suc i) xs"

definition cleaned :: "rawrow list \<Rightarrow> Record list" where
  "cleaned rows = map_idx cleaned_row 0 rows"

section \<open>The table and the map\<close>

text \<open>
  \<^verbatim>\<open>(x || '').toLowerCase()\<close>: a string has the method; a number or a boolean has no
  \<^verbatim>\<open>toLowerCase\<close> property, and calling \<^verbatim>\<open>undefined\<close> throws a \<^verbatim>\<open>TypeError\<close>, as
  reading a property of \<^verbatim>\<open>undefined\<close> or \<^verbatim>\<open>null\<close> does.
\<close>

fun call_toLowerCase :: "jsval \<Rightarrow> exn + string" where
  "call_toLowerCase (Str s) = Inr (toLowerCase s)"
| "call_toLowerCase v = Inl TypeError"

text \<open>\<^verbatim>\<open>[...].some(x => (x || '').toLowerCase().includes(q))\<close> stops at the first element
  that matches; an exception of the callback leaves \<^verbatim>\<open>some\<close>.\<close>

fun some_includes :: "string \<Rightarrow> jsval list \<Rightarrow> exn + bool" where
  "some_includes q [] = Inr False"
| "some_includes q (x # xs) =
     (case call_toLowerCase (lor x (Str '''')) of
        Inl e \<Rightarrow> Inl e
      | Inr s \<Rightarrow> if includes_js s q then Inr True else some_includes q xs)"

text \<open>\<^verbatim>\<open>data.filter(p)\<close> with a callback that may throw: elements are visited in order and
  the first exception leaves \<^verbatim>\<open>filter\<close>.\<close>

fun filter_js :: "('a \<Rightarrow> exn + bool) \<Rightarrow> 'a list \<Rightarrow> exn + 'a list" where
  "filter_js p [] = Inr []"
| "filter_js p (x # xs) =
     (case p x of
        Inl e \<Rightarrow> Inl e
      | Inr b \<Rightarrow>
          (case filter_js p xs of
             Inl e \<Rightarrow> Inl e
           | Inr ys \<Rightarrow> Inr (if b then x # ys else ys)))"

text \<open>\<^verbatim>\<open>filtered\<close> of \<^verbatim>\<open>TableScreen\<close>, lines 93 to 97.\<close>

definition TableScreen_filtered :: "Record list \<Rightarrow> string \<Rightarrow> exn + Record list" where
  "TableScreen_filtered data search =
     (let q = toLowerCase (trim search)
      in if q = [] then Inr data
         else filter_js (\<lambda>r. some_includes q [name r, city r, cuisine r, state r, country r]) data)"

text \<open>\<^verbatim>\<open>geocoded\<close> and \<^verbatim>\<open>filtered\<close> of \<^verbatim>\<open>MapScreen\<close>, lines 145 to 151.\<close>

definition MapScreen_geocoded :: "Record list \<Rightarrow> Record list" where
  "MapScreen_geocoded data = filter (\<lambda>d. Number_isFinite (lat d) \<and> Number_isFinite (lng d)) data"

definition MapScreen_filtered :: "Record list \<Rightarrow> string \<Rightarrow> exn + Record list" where
  "MapScreen_filtered data search =
     (let geocoded = MapScreen_geocoded data;
          q = toLowerCase (trim search)
      in if q = [] then Inr geocoded
         else filter_js (\<lambda>r. some_includes q [name r, city r, cuisine r, state r, country r]) geocoded)"

subsection \<open>Camera framing\<close>

record coordinate =
  latitude :: jsval
  longitude :: jsval

record edge_padding =
  top :: nat
  right :: nat
  bottom :: nat
  left :: nat

text \<open>The two calls \<^verbatim>\<open>onMapLayout\<close> makes on the map:
  \<^verbatim>\<open>animateCamera({ center, zoom }, { duration })\<close> and
  \<^verbatim>\<open>fitToCoordinates(coords, { edgePadding, animated })\<close>.\<close>

datatype camera_call =
    AnimateCamera coordinate nat nat
  | FitToCoordinates "coordinate list" edge_padding bool

text \<open>
  \<^verbatim>\<open>mapRef.current\<close> is \<^verbatim>\<open>null\<close> (\<open>None\<close>) until the map is mounted; afterwards it is
  the map, here the calls it has received so far. \<^verbatim>\<open>onMapLayout\<close>, lines 153 to 161,
  returns the reference as it leaves it.
\<close>

type_synonym mapRef = "camera_call list option"

definition onMapLayout :: "mapRef \<Rightarrow> Record list \<Rightarrow> mapRef" where
  "onMapLayout current filtered =
     (case current of
        None \<Rightarrow> None
      | Some calls \<Rightarrow>
          if length filtered = 0 then Some calls
          else
            let coords = map (\<lambda>r. \<lparr> latitude = lat r, longitude = lng r \<rparr>) filtered
            in if length coords = 1 then Some (calls @ [AnimateCamera (coords ! 0) 14 600])
               else Some (calls @ [FitToCoordinates coords
                                     \<lparr> top = 60, right = 60, bottom = 60, left = 60 \<rparr> True]))"

section \<open>Import\<close>

text \<open>
  The state of \<^verbatim>\<open>App\<close>: \<^verbatim>\<open>data\<close>, \<^verbatim>\<open>error\<close> (\<^verbatim>\<open>null\<close> or a message) and \<^verbatim>\<open>search\<close>;
  \<^verbatim>\<open>setData\<close> and \<^verbatim>\<open>setError\<close> replace one component.
\<close>

record AppState =
  data :: "Record list"
  error :: "string option"
  search :: string

definition setData :: "Record list \<Rightarrow> AppState \<Rightarrow> AppState" where
  "setData d st = st\<lparr> data := d \<rparr>"

definition setError :: "string option \<Rightarrow> AppState \<Rightarrow> AppState" where
  "setError e st = st\<lparr> error := e \<rparr>"

text \<open>
  What the handler calls outside \<^verbatim>\<open>App.js\<close>, as the outcome of each call during one
  import: the document picker, the file system and the spreadsheet library. A call
  returns (\<open>Inr\<close>) or throws (\<open>Inl\<close>). \<open>'ws\<close> is the library's worksheet object.
\<close>

record asset =
  uri :: string

record picker_result =
  canceled :: bool
  assets :: "asset list option"

record 'ws workbook =
  SheetNames :: "string list"
  Sheets :: "string \<rightharpoonup> 'ws"

record 'ws platform =
  getDocumentAsync :: "exn + picker_result"
  readAsStringAsync :: "string \<Rightarrow> exn + string"
  XLSX_read :: "string \<Rightarrow> exn + 'ws workbook"
  sheet_to_json :: "'ws option \<Rightarrow> exn + rawrow list"

definition failure_message :: string where
  "failure_message = ''Failed to read that file. Make sure it's an .xlsx or .xls with a header row.''"

text \<open>\<^verbatim>\<open>wb.Sheets[wb.SheetNames[0]]\<close>: with no sheet name the index expression is
  \<^verbatim>\<open>undefined\<close>, and the property read is that of the key \<^verbatim>\<open>"undefined"\<close>.\<close>

definition first_sheet :: "'ws workbook \<Rightarrow> 'ws option" where
  "first_sheet wb = Sheets wb (case SheetNames wb of [] \<Rightarrow> ''undefined'' | n # _ \<Rightarrow> n)"

text \<open>The body of \<^verbatim>\<open>try\<close>, lines 29 to 62, after \<^verbatim>\<open>setError(null)\<close>: an exception
  (\<open>Inl\<close>) or the state at the end or at the early \<^verbatim>\<open>return\<close>. The early return of
  line 39, \<^verbatim>\<open>res.canceled || !res.assets?.length\<close>, is taken when the picker was cancelled,
  when \<^verbatim>\<open>assets\<close> is missing and when it is empty; otherwise \<^verbatim>\<open>res.assets[0]\<close> is the file.\<close>

definition try_body :: "'ws platform \<Rightarrow> AppState \<Rightarrow> exn + AppState" where
  "try_body pf st =
     (case getDocumentAsync pf of
        Inl e \<Rightarrow> Inl e
      | Inr res \<Rightarrow>
          (case (if canceled res then None else assets res) of
             None \<Rightarrow> Inr st
           | Some [] \<Rightarrow> Inr st
           | Some (file # _) \<Rightarrow>
               (case readAsStringAsync pf (uri file) of
                  Inl e \<Rightarrow> Inl e
                | Inr b64 \<Rightarrow>
                    (case XLSX_read pf b64 of
                       Inl e \<Rightarrow> Inl e
                     | Inr wb \<Rightarrow>
                         (case sheet_to_json pf (first_sheet wb) of
                            Inl e \<Rightarrow> Inl e
                          | Inr rows \<Rightarrow> Inr (setData (cleaned rows) st))))))"

text \<open>The handler \<^verbatim>\<open>pickAndParseExcel\<close> returns, lines 27 to 67.\<close>

definition pickAndParseExcel :: "'ws platform \<Rightarrow> AppState \<Rightarrow> AppState" where
  "pickAndParseExcel pf st =
     (let st1 = setError None st
      in case try_body pf st1 of
           Inl e \<Rightarrow> setError (Some failure_message) st1
         | Inr st2 \<Rightarrow> st2)"

section \<open>Alias resolution, as specified\<close>



section \<open>Row positions and ids\<close>

lemma of_char_digit_char: "d < 10 \<Longrightarrow> (of_char (digit_char d) :: nat) = 48 + d"
  by (simp add: digit_char_def)

lemma digit_val_digit_char: "d < 10 \<Longrightarrow> digit_val (digit_char d) = d"
  by (simp add: digit_val_def of_char_digit_char)

lemma digit_char_not_dash: "d < 10 \<Longrightarrow> digit_char d \<noteq> CHR ''-''"
proof
  assume d: "d < 10" and eq: "digit_char d = CHR ''-''"
  from eq have "(of_char (digit_char d) :: nat) = of_char CHR ''-''" by simp
  with d show False by (simp add: of_char_digit_char)
qed

lemma digits10_no_dash: "CHR ''-'' \<notin> set (digits10 n)"
proof (induction n rule: digits10.induct)
  case (1 n)
  show ?case
  proof (cases "n < 10")
    case True
    then show ?thesis using digit_char_not_dash [of n] by (subst digits10.simps) auto
  next
    case False
    have "n mod 10 < 10" by simp
    then have "digit_char (n mod 10) \<noteq> CHR ''-''" by (rule digit_char_not_dash)
    with False 1 show ?thesis by (subst digits10.simps) auto
  qed
qed

lemma digits_val_snoc: "digits_val (ds @ [c]) = 10 * digits_val ds + digit_val c"
  by (simp add: digits_val_def)

lemma digits_val_digits10: "digits_val (digits10 n) = n"
proof (induction n rule: digits10.induct)
  case (1 n)
  show ?case
  proof (cases "n < 10")
    case True
    then show ?thesis
      by (subst digits10.simps) (simp add: digits_val_def digit_val_digit_char)
  next
    case False
    with 1 have ih: "digits_val (digits10 (n div 10)) = n div 10" by simp
    have "digits_val (digits10 n) = 10 * (n div 10) + n mod 10"
      using False ih by (subst digits10.simps) (simp add: digits_val_snoc digit_val_digit_char)
    then show ?thesis by simp
  qed
qed

lemma digits10_inj:
  assumes "digits10 a = digits10 b"
  shows "a = b"
proof -
  have "a = digits_val (digits10 a)" by (simp only: digits_val_digits10)
  also have "\<dots> = digits_val (digits10 b)" by (simp only: assms)
  also have "\<dots> = b" by (simp only: digits_val_digits10)
  finally show ?thesis .
qed

lemma takeWhile_before_dash:
  "CHR ''-'' \<notin> set ds \<Longrightarrow> takeWhile (\<lambda>c. c \<noteq> CHR ''-'') (ds @ CHR ''-'' # rest) = ds"
  by (induction ds) auto

lemma id_of_cleaned_row:
  "id' (cleaned_row k s) = digits10 k @ CHR ''-'' #
     String_js (lor (lor (lor (get s ''Name'') (get s ''name'')) (get s ''Title'')) (Str ''''))"
  by (simp add: cleaned_row_def)

lemma id_determines_index:
  assumes "id' (cleaned_row i r) = id' (cleaned_row j r')"
  shows "i = j"
proof -
  have tw: "takeWhile (\<lambda>c. c \<noteq> CHR ''-'') (id' (cleaned_row k s)) = digits10 k" for k s
    by (simp only: id_of_cleaned_row takeWhile_before_dash [OF digits10_no_dash])
  have "digits10 i = takeWhile (\<lambda>c. c \<noteq> CHR ''-'') (id' (cleaned_row i r))"
    by (simp only: tw)
  also have "\<dots> = takeWhile (\<lambda>c. c \<noteq> CHR ''-'') (id' (cleaned_row j r'))"
    by (simp only: assms)
  also have "\<dots> = digits10 j"
    by (simp only: tw)
  finally show ?thesis by (rule digits10_inj)
qed

lemma length_map_idx: "length (map_idx f k xs) = length xs"
  by (induction xs arbitrary: k) auto

lemma nth_map_idx: "i < length xs \<Longrightarrow> map_idx f k xs ! i = f (k + i) (xs ! i)"
proof (induction xs arbitrary: k i)
  case Nil
  then show ?case by simp
next
  case (Cons x xs)
  then show ?case by (cases i) auto
qed

lemma distinct_ids: "distinct (map id' (cleaned rows))"
proof -
  have "i = j" if "i < length rows" "j < length rows"
    and eq: "id' (cleaned rows ! i) = id' (cleaned rows ! j)" for i j
  proof -
    from that have "id' (cleaned_row (0 + i) (rows ! i)) = id' (cleaned_row (0 + j) (rows ! j))"
      by (simp only: cleaned_def nth_map_idx)
    then have "0 + i = 0 + j" by (rule id_determines_index)
    then show ?thesis by simp
  qed
  then have "\<forall>i<length rows. \<forall>j<length rows. i \<noteq> j \<longrightarrow> id' (cleaned rows ! i) \<noteq> id' (cleaned rows ! j)"
    by blast
  moreover have "length (cleaned rows) = length rows"
    by (simp only: cleaned_def length_map_idx)
  ultimately show ?thesis
    by (simp add: distinct_conv_nth)
qed

section \<open>Coordinates\<close>

lemmas parse_eval =
  safeFloat_def parseFloat_def trimStart_def is_ws_def parse_unsigned_def parse_exponent_def
  is_digit_def digits_val_def digit_val_def to_double_def pow10_def

lemma safeFloat_cases:
  "safeFloat v = (case parseFloat (replace_comma (String_js v)) of
                    NaN \<Rightarrow> Null | PosInfinity \<Rightarrow> Null | NegInfinity \<Rightarrow> Null | Fin x \<Rightarrow> Num (Fin x))"
  by (simp add: safeFloat_def Let_def split: jsnum.split)

lemma safeFloat_finite_or_null: "safeFloat v = Null \<or> (\<exists>x. safeFloat v = Num (Fin x))"
  by (simp add: safeFloat_cases split: jsnum.split)

lemma lat_cleaned_row:
  "lat (cleaned_row idx r) = safeFloat (lor (lor (get r ''Latitude'') (get r ''latitude'')) (get r ''lat''))"
  by (simp add: cleaned_row_def)

lemma lng_cleaned_row:
  "lng (cleaned_row idx r) = safeFloat (lor (lor (get r ''Longitude'') (get r ''longitude'')) (get r ''lng''))"
  by (simp add: cleaned_row_def)

lemma safeFloat_45_12: "safeFloat (Str ''45,12'') = Num (Fin 45.12)"
  by (simp add: parse_eval)

lemma safeFloat_abc: "safeFloat (Str ''abc'') = Null"
  by (simp add: parse_eval)

lemma safeFloat_empty: "safeFloat (Str '''') = Null"
  by (simp add: parse_eval)

lemma safeFloat_12_5: "safeFloat (Num (Fin 12.5)) = Num (Fin 12.5)"
  by code_simp

lemma safeFloat_zero: "safeFloat (Num (Fin 0)) = Num (Fin 0)"
  by (simp add: parse_eval)

lemma safeFloat_string_zero: "safeFloat (Str ''0'') = Num (Fin 0)"
  by (simp add: parse_eval)

lemma safeFloat_Undefined: "safeFloat Undefined = Null"
  by (simp add: parse_eval)

lemma safeFloat_1_5: "safeFloat (Str ''1,5'') = Num (Fin 1.5)"
  by (simp add: parse_eval)

text \<open>
  Claim C2. \<^verbatim>\<open>safeFloat\<close> turns its argument into a string, replaces the first comma by a
  point and parses a float; the result is the parsed number when it is finite and
  \<^verbatim>\<open>null\<close> otherwise. \<^verbatim>\<open>lat\<close> and \<^verbatim>\<open>lng\<close> of a cleaned record are both made by it, so
  each is \<^verbatim>\<open>null\<close> or a finite number, never \<^verbatim>\<open>NaN\<close> or an infinity. The four examples:
  \<^verbatim>\<open>"45,12"\<close> gives 45.12, \<^verbatim>\<open>"abc"\<close> and \<^verbatim>\<open>""\<close> give \<^verbatim>\<open>null\<close>, the number 12.5 gives 12.5.
\<close>

theorem C2_safeFloat:
  "safeFloat v = (case parseFloat (replace_comma (String_js v)) of
                    NaN \<Rightarrow> Null | PosInfinity \<Rightarrow> Null | NegInfinity \<Rightarrow> Null | Fin x \<Rightarrow> Num (Fin x))
   \<and> lat (cleaned_row idx r) = safeFloat (lor (lor (get r ''Latitude'') (get r ''latitude'')) (get r ''lat''))
   \<and> lng (cleaned_row idx r) = safeFloat (lor (lor (get r ''Longitude'') (get r ''longitude'')) (get r ''lng''))
   \<and> (lat (cleaned_row idx r) = Null \<or> (\<exists>x. lat (cleaned_row idx r) = Num (Fin x)))
   \<and> (lng (cleaned_row idx r) = Null \<or> (\<exists>y. lng (cleaned_row idx r) = Num (Fin y)))
   \<and> safeFloat (Str ''45,12'') = Num (Fin 45.12)
   \<and> safeFloat (Str ''abc'') = Null
   \<and> safeFloat (Str '''') = Null
   \<and> safeFloat (Num (Fin 12.5)) = Num (Fin 12.5)"
proof -
  have "lat (cleaned_row idx r) = Null \<or> (\<exists>x. lat (cleaned_row idx r) = Num (Fin x))"
    unfolding lat_cleaned_row by (rule safeFloat_finite_or_null)
  moreover have "lng (cleaned_row idx r) = Null \<or> (\<exists>y. lng (cleaned_row idx r) = Num (Fin y))"
    unfolding lng_cleaned_row by (rule safeFloat_finite_or_null)
  ultimately show ?thesis
    using safeFloat_cases [of v] lat_cleaned_row [of idx r] lng_cleaned_row [of idx r]
      safeFloat_45_12 safeFloat_abc safeFloat_empty safeFloat_12_5
    by blast
qed

theorem C2_safeFloat_witness:
  "lat (cleaned_row 0 [''Latitude'' \<mapsto> Str ''1,5'']) = Num (Fin 1.5)
   \<and> lng (cleaned_row 0 [''Latitude'' \<mapsto> Str ''1,5'']) = Null"
proof -
  have l: "lor (lor (get [''Latitude'' \<mapsto> Str ''1,5''] ''Latitude'') (get [''Latitude'' \<mapsto> Str ''1,5''] ''latitude''))
             (get [''Latitude'' \<mapsto> Str ''1,5''] ''lat'') = Str ''1,5''"
    by (simp add: get_def lor_def)
  have g: "lor (lor (get [''Latitude'' \<mapsto> Str ''1,5''] ''Longitude'') (get [''Latitude'' \<mapsto> Str ''1,5''] ''longitude''))
             (get [''Latitude'' \<mapsto> Str ''1,5''] ''lng'') = Undefined"
    by (simp add: get_def lor_def)
  show ?thesis
    using C2_safeFloat [of Undefined 0 "[''Latitude'' \<mapsto> Str ''1,5'']"]
    by (simp only: l g safeFloat_1_5 safeFloat_Undefined)
qed

section \<open>Alias priority\<close>









section \<open>Zero coordinates\<close>

lemma lor_Str_defined: "lor x (Str s) \<noteq> Null \<and> lor x (Str s) \<noteq> Undefined"
  by (cases x) (simp_all add: lor_def)

lemma digits10_0: "digits10 0 = ''0''"
  by code_simp

lemma digits10_2: "digits10 2 = ''2''"
  by code_simp

lemma geocoded_member:
  "d \<in> set (MapScreen_geocoded ds) \<longleftrightarrow> d \<in> set ds \<and> Number_isFinite (lat d) \<and> Number_isFinite (lng d)"
  by (simp add: MapScreen_geocoded_def)

text \<open>
  Claim C10, as amended. When the \<^verbatim>\<open>Latitude\<close> cell of a row holds the number 0, \<^verbatim>\<open>||\<close> skips
  it before the coercion, and \<^verbatim>\<open>lat\<close> is coerced from \<^verbatim>\<open>latitude || lat\<close>; when those two
  are absent or empty strings, \<^verbatim>\<open>lat\<close> is \<^verbatim>\<open>null\<close> and the record is not geocoded. The same
  holds of \<^verbatim>\<open>Longitude\<close>, \<^verbatim>\<open>longitude\<close>, \<^verbatim>\<open>lng\<close>.
\<close>

theorem C10_zero_skipped:
  "(r ''Latitude'' = Some (Num (Fin 0)) \<longrightarrow>
      lat (cleaned_row idx r) = safeFloat (lor (get r ''latitude'') (get r ''lat'')))
   \<and> (r ''Longitude'' = Some (Num (Fin 0)) \<longrightarrow>
      lng (cleaned_row idx r) = safeFloat (lor (get r ''longitude'') (get r ''lng'')))
   \<and> (r ''Latitude'' = Some (Num (Fin 0)) \<and> r ''latitude'' \<in> {None, Some (Str '''')}
        \<and> r ''lat'' \<in> {None, Some (Str '''')} \<longrightarrow>
      lat (cleaned_row idx r) = Null \<and> cleaned_row idx r \<notin> set (MapScreen_geocoded ds))
   \<and> (r ''Longitude'' = Some (Num (Fin 0)) \<and> r ''longitude'' \<in> {None, Some (Str '''')}
        \<and> r ''lng'' \<in> {None, Some (Str '''')} \<longrightarrow>
      lng (cleaned_row idx r) = Null \<and> cleaned_row idx r \<notin> set (MapScreen_geocoded ds))"
proof -
  have a: "lat (cleaned_row idx r) = safeFloat (lor (get r ''latitude'') (get r ''lat''))"
    if "r ''Latitude'' = Some (Num (Fin 0))"
    using that by (simp add: lat_cleaned_row get_def lor_def)
  have b: "lng (cleaned_row idx r) = safeFloat (lor (get r ''longitude'') (get r ''lng''))"
    if "r ''Longitude'' = Some (Num (Fin 0))"
    using that by (simp add: lng_cleaned_row get_def lor_def)
  have c: "lat (cleaned_row idx r) = Null"
    if "r ''Latitude'' = Some (Num (Fin 0))" "r ''latitude'' \<in> {None, Some (Str '''')}"
       "r ''lat'' \<in> {None, Some (Str '''')}"
    using that a safeFloat_Undefined safeFloat_empty by (auto simp: get_def lor_def)
  have d: "lng (cleaned_row idx r) = Null"
    if "r ''Longitude'' = Some (Num (Fin 0))" "r ''longitude'' \<in> {None, Some (Str '''')}"
       "r ''lng'' \<in> {None, Some (Str '''')}"
    using that b safeFloat_Undefined safeFloat_empty by (auto simp: get_def lor_def)
  have e: "x \<notin> set (MapScreen_geocoded ds)" if "lat x = Null \<or> lng x = Null" for x
    using that by (auto simp: geocoded_member)
  from a b c d e show ?thesis by blast
qed

theorem C10_zero_skipped_witness:
  "lat (cleaned_row 0 [''Latitude'' \<mapsto> Num (Fin 0), ''Longitude'' \<mapsto> Num (Fin 12.5)]) = Null
   \<and> cleaned_row 0 [''Latitude'' \<mapsto> Num (Fin 0), ''Longitude'' \<mapsto> Num (Fin 12.5)]
       \<notin> set (MapScreen_geocoded [cleaned_row 0 [''Latitude'' \<mapsto> Num (Fin 0), ''Longitude'' \<mapsto> Num (Fin 12.5)]])"
proof -
  let ?r = "[''Latitude'' \<mapsto> Num (Fin 0), ''Longitude'' \<mapsto> Num (Fin 12.5)]"
  have h: "?r ''Latitude'' = Some (Num (Fin 0)) \<and> ?r ''latitude'' \<in> {None, Some (Str '''')}
             \<and> ?r ''lat'' \<in> {None, Some (Str '''')}"
    by simp
  from C10_zero_skipped [of ?r 0 "[cleaned_row 0 ?r]"]
  have "?r ''Latitude'' = Some (Num (Fin 0)) \<and> ?r ''latitude'' \<in> {None, Some (Str '''')}
             \<and> ?r ''lat'' \<in> {None, Some (Str '''')} \<longrightarrow>
      lat (cleaned_row 0 ?r) = Null \<and> cleaned_row 0 ?r \<notin> set (MapScreen_geocoded [cleaned_row 0 ?r])"
    by (rule conjunct2 [THEN conjunct2, THEN conjunct1])
  from this h show ?thesis by (rule mp)
qed

text \<open>
  The claim as stated fails. A row whose only latitude and longitude cells are \<^verbatim>\<open>lat\<close> and
  \<^verbatim>\<open>lng\<close>, both the number 0, keeps both zeros and is geocoded: the last operand of
  \<^verbatim>\<open>||\<close> is passed on whatever it is. And a 0 in \<^verbatim>\<open>Latitude\<close> with \<^verbatim>\<open>"0"\<close> in \<^verbatim>\<open>lat\<close> gives
  \<^verbatim>\<open>lat\<close> 0, not \<^verbatim>\<open>null\<close>.
\<close>

theorem C10_counterexample:
  "lat (cleaned_row 0 [''lat'' \<mapsto> Num (Fin 0), ''lng'' \<mapsto> Num (Fin 0)]) = Num (Fin 0)
   \<and> lng (cleaned_row 0 [''lat'' \<mapsto> Num (Fin 0), ''lng'' \<mapsto> Num (Fin 0)]) = Num (Fin 0)
   \<and> MapScreen_geocoded [cleaned_row 0 [''lat'' \<mapsto> Num (Fin 0), ''lng'' \<mapsto> Num (Fin 0)]]
       = [cleaned_row 0 [''lat'' \<mapsto> Num (Fin 0), ''lng'' \<mapsto> Num (Fin 0)]]
   \<and> lat (cleaned_row 0 [''Latitude'' \<mapsto> Num (Fin 0), ''lat'' \<mapsto> Str ''0'']) = Num (Fin 0)"
proof -
  have a: "lat (cleaned_row 0 [''lat'' \<mapsto> Num (Fin 0), ''lng'' \<mapsto> Num (Fin 0)]) = Num (Fin 0)"
    by (simp add: lat_cleaned_row get_def lor_def safeFloat_zero)
  have b: "lng (cleaned_row 0 [''lat'' \<mapsto> Num (Fin 0), ''lng'' \<mapsto> Num (Fin 0)]) = Num (Fin 0)"
    by (simp add: lng_cleaned_row get_def lor_def safeFloat_zero)
  have c: "lat (cleaned_row 0 [''Latitude'' \<mapsto> Num (Fin 0), ''lat'' \<mapsto> Str ''0'']) = Num (Fin 0)"
    by (simp add: lat_cleaned_row get_def lor_def safeFloat_string_zero)
  from a b c show ?thesis by (simp add: MapScreen_geocoded_def)
qed

section \<open>Totality of normalisation\<close>

lemma cleaned_row_empty:
  "cleaned_row idx Map.empty =
     \<lparr> id' = digits10 idx @ ''-'', name = Str ''Unnamed'', address = Str '''', city = Str '''',
       state = Str '''', country = Str '''', lat = Null, lng = Null, phone = Str '''',
       website = Str '''', cuisine = Str '''', notes = Str '''' \<rparr>"
  by (simp add: cleaned_row_def get_def lor_def safeFloat_Undefined)

lemma string_fields_defined:
  "\<forall>f \<in> {name, address, city, state, country, phone, website, cuisine, notes}.
     f (cleaned_row idx r) \<noteq> Null \<and> f (cleaned_row idx r) \<noteq> Undefined"
  by (simp add: cleaned_row_def lor_Str_defined)

lemma name_Unnamed:
  "\<not> truthy (get r ''Name'') \<Longrightarrow> \<not> truthy (get r ''name'') \<Longrightarrow> \<not> truthy (get r ''Title'')
     \<Longrightarrow> name (cleaned_row idx r) = Str ''Unnamed''"
  by (simp add: cleaned_row_def lor_def)

lemma lat_unparsable:
  "parseFloat (replace_comma (String_js (lor (lor (get r ''Latitude'') (get r ''latitude'')) (get r ''lat'')))) = NaN
     \<Longrightarrow> lat (cleaned_row idx r) = Null"
  by (simp add: lat_cleaned_row safeFloat_cases)

lemma lng_unparsable:
  "parseFloat (replace_comma (String_js (lor (lor (get r ''Longitude'') (get r ''longitude'')) (get r ''lng'')))) = NaN
     \<Longrightarrow> lng (cleaned_row idx r) = Null"
  by (simp add: lng_cleaned_row safeFloat_cases)

lemma nth_cleaned: "i < length rows \<Longrightarrow> cleaned rows ! i = cleaned_row i (rows ! i)"
  by (simp add: cleaned_def nth_map_idx)

lemma length_cleaned: "length (cleaned rows) = length rows"
  by (simp add: cleaned_def length_map_idx)

text \<open>
  Claim C7. Normalisation is a total function of the row, with no exception among its
  results: each row gives exactly one record, at its own position, so no row is dropped.
  None of the nine text fields is \<^verbatim>\<open>null\<close> or \<^verbatim>\<open>undefined\<close>; \<^verbatim>\<open>lat\<close> and \<^verbatim>\<open>lng\<close> are
  \<^verbatim>\<open>null\<close> or finite numbers. A row with no truthy name cell is named \<^verbatim>\<open>Unnamed\<close>, a row
  whose coordinate does not parse has \<^verbatim>\<open>null\<close> there, and the row with no header at all
  gives the record of the defaults.
\<close>

theorem C7_normalisation_total:
  "length (cleaned rows) = length rows
   \<and> (\<forall>i < length rows. cleaned rows ! i = cleaned_row i (rows ! i))
   \<and> (\<forall>f \<in> {name, address, city, state, country, phone, website, cuisine, notes}.
         f (cleaned_row idx r) \<noteq> Null \<and> f (cleaned_row idx r) \<noteq> Undefined)
   \<and> (lat (cleaned_row idx r) = Null \<or> (\<exists>x. lat (cleaned_row idx r) = Num (Fin x)))
   \<and> (lng (cleaned_row idx r) = Null \<or> (\<exists>y. lng (cleaned_row idx r) = Num (Fin y)))
   \<and> (\<not> truthy (get r ''Name'') \<and> \<not> truthy (get r ''name'') \<and> \<not> truthy (get r ''Title'')
        \<longrightarrow> name (cleaned_row idx r) = Str ''Unnamed'')
   \<and> (parseFloat (replace_comma (String_js
          (lor (lor (get r ''Latitude'') (get r ''latitude'')) (get r ''lat'')))) = NaN
        \<longrightarrow> lat (cleaned_row idx r) = Null)
   \<and> (parseFloat (replace_comma (String_js
          (lor (lor (get r ''Longitude'') (get r ''longitude'')) (get r ''lng'')))) = NaN
        \<longrightarrow> lng (cleaned_row idx r) = Null)
   \<and> cleaned_row idx Map.empty =
       \<lparr> id' = digits10 idx @ ''-'', name = Str ''Unnamed'', address = Str '''', city = Str '''',
         state = Str '''', country = Str '''', lat = Null, lng = Null, phone = Str '''',
         website = Str '''', cuisine = Str '''', notes = Str '''' \<rparr>"
proof -
  have "lat (cleaned_row idx r) = Null \<or> (\<exists>x. lat (cleaned_row idx r) = Num (Fin x))"
    unfolding lat_cleaned_row by (rule safeFloat_finite_or_null)
  moreover have "lng (cleaned_row idx r) = Null \<or> (\<exists>y. lng (cleaned_row idx r) = Num (Fin y))"
    unfolding lng_cleaned_row by (rule safeFloat_finite_or_null)
  moreover have "\<forall>i < length rows. cleaned rows ! i = cleaned_row i (rows ! i)"
    by (simp add: nth_cleaned)
  ultimately show ?thesis
    using length_cleaned [of rows] string_fields_defined [of idx r] name_Unnamed [of r idx]
      lat_unparsable [of r idx] lng_unparsable [of r idx] cleaned_row_empty [of idx]
    by blast
qed

theorem C7_normalisation_total_witness:
  "length (cleaned [Map.empty, [''Latitude'' \<mapsto> Str ''abc'']]) = 2
   \<and> cleaned [Map.empty, [''Latitude'' \<mapsto> Str ''abc'']] ! 1 = cleaned_row 1 [''Latitude'' \<mapsto> Str ''abc'']
   \<and> name (cleaned_row 1 [''Latitude'' \<mapsto> Str ''abc'']) = Str ''Unnamed''
   \<and> lat (cleaned_row 1 [''Latitude'' \<mapsto> Str ''abc'']) = Null
   \<and> city (cleaned_row 1 [''Latitude'' \<mapsto> Str ''abc'']) \<noteq> Null"
proof -
  let ?r = "[''Latitude'' \<mapsto> Str ''abc'']"
  let ?rows = "[Map.empty, ?r]"
  note inst = C7_normalisation_total [of ?rows 1 ?r]
  have n: "\<not> truthy (get ?r ''Name'') \<and> \<not> truthy (get ?r ''name'') \<and> \<not> truthy (get ?r ''Title'')"
    by (simp add: get_def)
  have p: "parseFloat (replace_comma (String_js
          (lor (lor (get ?r ''Latitude'') (get ?r ''latitude'')) (get ?r ''lat'')))) = NaN"
    by (simp add: get_def lor_def parse_eval)
  have i: "(1::nat) < length ?rows" by simp
  have c: "city \<in> {name, address, city, state, country, phone, website, cuisine, notes}" by simp
  from inst i have "cleaned ?rows ! 1 = cleaned_row 1 (?rows ! 1)" by blast
  moreover from inst n have "name (cleaned_row 1 ?r) = Str ''Unnamed''" by blast
  moreover from inst p have "lat (cleaned_row 1 ?r) = Null" by blast
  moreover from inst c have "city (cleaned_row 1 ?r) \<noteq> Null" by blast
  moreover from inst have "length (cleaned ?rows) = 2" by simp
  ultimately show ?thesis by simp
qed

section \<open>Ids\<close>

lemma id_with_name:
  assumes "truthy (get r ''Name'') \<or> truthy (get r ''name'') \<or> truthy (get r ''Title'')"
  shows "id' (cleaned_row idx r) = digits10 idx @ ''-'' @ String_js (name (cleaned_row idx r))"
  using assms by (auto simp: cleaned_row_def lor_def)

lemma id_without_name:
  assumes "\<not> truthy (get r ''Name'')" "\<not> truthy (get r ''name'')" "\<not> truthy (get r ''Title'')"
  shows "id' (cleaned_row idx r) = digits10 idx @ ''-'' \<and> name (cleaned_row idx r) = Str ''Unnamed''"
  using assms by (simp add: cleaned_row_def lor_def)

lemma id_position:
  "i < length rows \<Longrightarrow> \<exists>s. id' (cleaned rows ! i) = digits10 i @ ''-'' @ s"
  by (simp add: nth_cleaned cleaned_row_def)

text \<open>
  Claim C8, as amended. The id of a row is its zero-based position, a hyphen, and the first
  truthy name cell as a string: the value of the record's \<^verbatim>\<open>name\<close> field when the row has a
  truthy name cell, the empty string (while \<^verbatim>\<open>name\<close> is \<^verbatim>\<open>Unnamed\<close>) when it has none. The
  ids of a loaded set are pairwise different, whatever the names.
\<close>

theorem C8_id:
  "(truthy (get r ''Name'') \<or> truthy (get r ''name'') \<or> truthy (get r ''Title'') \<longrightarrow>
      id' (cleaned_row idx r) = digits10 idx @ ''-'' @ String_js (name (cleaned_row idx r)))
   \<and> (\<not> truthy (get r ''Name'') \<and> \<not> truthy (get r ''name'') \<and> \<not> truthy (get r ''Title'') \<longrightarrow>
      id' (cleaned_row idx r) = digits10 idx @ ''-'' \<and> name (cleaned_row idx r) = Str ''Unnamed'')
   \<and> (\<forall>i < length rows. \<exists>s. id' (cleaned rows ! i) = digits10 i @ ''-'' @ s)
   \<and> distinct (map id' (cleaned rows))"
  using id_with_name [of r idx] id_without_name [of r idx] id_position [of _ rows] distinct_ids [of rows]
  by blast

theorem C8_id_witness:
  "id' (cleaned_row 2 [''Name'' \<mapsto> Str ''Roma'']) = ''2-Roma''
   \<and> distinct (map id' (cleaned [[''Name'' \<mapsto> Str ''Roma''], [''Name'' \<mapsto> Str ''Roma'']]))"
proof -
  let ?r = "[''Name'' \<mapsto> Str ''Roma'']"
  note inst = C8_id [of ?r 2 "[?r, ?r]"]
  have t: "truthy (get ?r ''Name'') \<or> truthy (get ?r ''name'') \<or> truthy (get ?r ''Title'')"
    by (simp add: get_def)
  have n: "name (cleaned_row 2 ?r) = Str ''Roma''"
    by (simp add: cleaned_row_def get_def lor_def)
  from inst t have "id' (cleaned_row 2 ?r) = digits10 2 @ ''-'' @ String_js (name (cleaned_row 2 ?r))"
    by blast
  then have "id' (cleaned_row 2 ?r) = ''2-Roma''"
    by (simp add: n digits10_2)
  moreover from inst have "distinct (map id' (cleaned [?r, ?r]))"
    by blast
  ultimately show ?thesis by (intro conjI)
qed

text \<open>
  The claim as stated fails on a row with no name: the id ends after the hyphen, while the
  record's \<^verbatim>\<open>name\<close> field holds \<^verbatim>\<open>Unnamed\<close>.
\<close>

theorem C8_counterexample:
  "id' (cleaned_row 0 Map.empty) = ''0-''
   \<and> name (cleaned_row 0 Map.empty) = Str ''Unnamed''
   \<and> id' (cleaned_row 0 Map.empty) \<noteq> ''0'' @ ''-'' @ String_js (name (cleaned_row 0 Map.empty))
   \<and> id' (cleaned_row 0 Map.empty) \<noteq> ''0'' @ String_js (name (cleaned_row 0 Map.empty))"
  by (simp add: cleaned_row_empty digits10_0)

section \<open>The geocoded subset and the camera\<close>

lemma Number_isFinite_iff: "Number_isFinite v \<longleftrightarrow> (\<exists>x. v = Num (Fin x))"
proof (cases v)
  case (Num n)
  then show ?thesis by (cases n) simp_all
qed simp_all

text \<open>
  Claim C4. A record is in the geocoded subset exactly when it is in the collection and its
  \<^verbatim>\<open>lat\<close> and \<^verbatim>\<open>lng\<close> are both finite numbers (so neither is \<^verbatim>\<open>null\<close>); the subset keeps the
  order of the collection. What the map shows is the search filter of the table applied to
  the geocoded subset: first the restriction, then the search.
\<close>

theorem C4_geocoded:
  "(d \<in> set (MapScreen_geocoded ds) \<longleftrightarrow>
      d \<in> set ds \<and> (\<exists>x. lat d = Num (Fin x)) \<and> (\<exists>y. lng d = Num (Fin y)))
   \<and> subseq (MapScreen_geocoded ds) ds
   \<and> MapScreen_filtered ds s = TableScreen_filtered (MapScreen_geocoded ds) s"
proof -
  have "MapScreen_filtered ds s = TableScreen_filtered (MapScreen_geocoded ds) s"
    by (simp add: MapScreen_filtered_def TableScreen_filtered_def Let_def)
  moreover have "subseq (MapScreen_geocoded ds) ds"
    by (simp add: MapScreen_geocoded_def)
  ultimately show ?thesis
    by (simp add: geocoded_member Number_isFinite_iff)
qed

theorem C4_geocoded_witness:
  "cleaned_row 1 [''lat'' \<mapsto> Num (Fin 0), ''lng'' \<mapsto> Num (Fin 0)]
     \<in> set (MapScreen_geocoded
              [cleaned_row 0 Map.empty, cleaned_row 1 [''lat'' \<mapsto> Num (Fin 0), ''lng'' \<mapsto> Num (Fin 0)]])
   \<and> cleaned_row 0 Map.empty
     \<notin> set (MapScreen_geocoded
              [cleaned_row 0 Map.empty, cleaned_row 1 [''lat'' \<mapsto> Num (Fin 0), ''lng'' \<mapsto> Num (Fin 0)]])"
proof -
  let ?r = "[''lat'' \<mapsto> Num (Fin 0), ''lng'' \<mapsto> Num (Fin 0)]"
  let ?ds = "[cleaned_row 0 Map.empty, cleaned_row 1 ?r]"
  have n: "lat (cleaned_row 0 Map.empty) = Null"
    by (simp add: cleaned_row_empty)
  have p: "lat (cleaned_row 1 ?r) = Num (Fin 0)" "lng (cleaned_row 1 ?r) = Num (Fin 0)"
    by (simp_all add: lat_cleaned_row lng_cleaned_row get_def lor_def safeFloat_zero)
  from C4_geocoded [of "cleaned_row 1 ?r" ?ds] p
  have "cleaned_row 1 ?r \<in> set (MapScreen_geocoded ?ds)"
    by simp
  moreover from C4_geocoded [of "cleaned_row 0 Map.empty" ?ds] n
  have "cleaned_row 0 Map.empty \<notin> set (MapScreen_geocoded ?ds)"
    by simp
  ultimately show ?thesis by (intro conjI)
qed

text \<open>
  Claim C5. On a mounted map, \<^verbatim>\<open>onMapLayout\<close> issues nothing for no record; for one record
  a camera animation centred on its coordinate, at zoom 14; for two or more a fit to the
  coordinates of all the records, in their order, with a padding of 60 on each of the four
  edges. The decision depends on the records alone: a second call on the same records
  issues the same instruction again.
\<close>

theorem C5_camera_framing:
  "onMapLayout (Some calls) [] = Some calls
   \<and> onMapLayout (Some calls) [r] =
       Some (calls @ [AnimateCamera \<lparr> latitude = lat r, longitude = lng r \<rparr> 14 600])
   \<and> (2 \<le> length filtered \<longrightarrow>
       onMapLayout (Some calls) filtered =
         Some (calls @ [FitToCoordinates (map (\<lambda>r. \<lparr> latitude = lat r, longitude = lng r \<rparr>) filtered)
                          \<lparr> top = 60, right = 60, bottom = 60, left = 60 \<rparr> True]))
   \<and> (\<forall>r \<in> set filtered.
         \<lparr> latitude = lat r, longitude = lng r \<rparr>
           \<in> set (map (\<lambda>r. \<lparr> latitude = lat r, longitude = lng r \<rparr>) filtered))
   \<and> (\<exists>issued. length issued \<le> 1
         \<and> onMapLayout (Some calls) filtered = Some (calls @ issued)
         \<and> onMapLayout (onMapLayout (Some calls) filtered) filtered = Some (calls @ issued @ issued))"
proof -
  have z: "onMapLayout (Some calls) [] = Some calls"
    by (simp add: onMapLayout_def)
  have o: "onMapLayout (Some calls) [r] =
       Some (calls @ [AnimateCamera \<lparr> latitude = lat r, longitude = lng r \<rparr> 14 600])"
    by (simp add: onMapLayout_def)
  have m: "onMapLayout (Some calls) filtered =
         Some (calls @ [FitToCoordinates (map (\<lambda>r. \<lparr> latitude = lat r, longitude = lng r \<rparr>) filtered)
                          \<lparr> top = 60, right = 60, bottom = 60, left = 60 \<rparr> True])"
    if "2 \<le> length filtered"
    using that by (auto simp: onMapLayout_def Let_def)
  have i: "\<exists>issued. length issued \<le> 1
         \<and> onMapLayout (Some cs) filtered = Some (cs @ issued)
         \<and> onMapLayout (onMapLayout (Some cs) filtered) filtered = Some (cs @ issued @ issued)" for cs
  proof (cases "length filtered = 0")
    case True
    then have "onMapLayout (Some cs) filtered = Some (cs @ [])"
      and "onMapLayout (onMapLayout (Some cs) filtered) filtered = Some (cs @ [] @ [])"
      by (simp_all add: onMapLayout_def)
    then show ?thesis by (intro exI [of _ "[]"]) simp
  next
    case False
    define c where "c = (let coords = map (\<lambda>r. \<lparr> latitude = lat r, longitude = lng r \<rparr>) filtered
            in if length coords = 1 then AnimateCamera (coords ! 0) 14 600
               else FitToCoordinates coords \<lparr> top = 60, right = 60, bottom = 60, left = 60 \<rparr> True)"
    have step: "onMapLayout (Some xs) filtered = Some (xs @ [c])" for xs
      using False by (simp add: onMapLayout_def c_def Let_def)
    have "onMapLayout (onMapLayout (Some cs) filtered) filtered = Some (cs @ [c] @ [c])"
      by (simp add: step)
    with step [of cs] show ?thesis by (intro exI [of _ "[c]"]) simp
  qed
  from z o m i [of calls] show ?thesis by simp
qed

theorem C5_camera_framing_witness:
  "onMapLayout (Some []) [cleaned_row 0 Map.empty, cleaned_row 1 Map.empty] =
     Some [FitToCoordinates [\<lparr> latitude = Null, longitude = Null \<rparr>, \<lparr> latitude = Null, longitude = Null \<rparr>]
             \<lparr> top = 60, right = 60, bottom = 60, left = 60 \<rparr> True]"
proof -
  have l: "(2::nat) \<le> length [cleaned_row 0 Map.empty, cleaned_row 1 Map.empty]" by simp
  from C5_camera_framing [of "[]" _ "[cleaned_row 0 Map.empty, cleaned_row 1 Map.empty]"] l
  show ?thesis by (simp add: cleaned_row_empty)
qed

section \<open>Import failure\<close>

lemma failed_import:
  assumes "try_body pf (setError None st) = Inl e"
  shows "pickAndParseExcel pf st = st\<lparr> error := Some failure_message \<rparr>"
  using assms by (simp add: pickAndParseExcel_def setError_def Let_def)

lemma try_body_decode_failure:
  assumes "getDocumentAsync pf = Inr res" and "\<not> canceled res"
    and "assets res = Some (file # others)"
    and "readAsStringAsync pf (uri file) = Inr b64"
    and "XLSX_read pf b64 = Inl e
         \<or> (\<exists>wb. XLSX_read pf b64 = Inr wb \<and> sheet_to_json pf (first_sheet wb) = Inl e)"
  shows "try_body pf s = Inl e"
  using assms by (auto simp: try_body_def)

lemma try_body_data:
  "try_body pf s = Inr s' \<Longrightarrow> error s' = error s \<and> search s' = search s"
  by (auto simp: try_body_def setData_def split: sum.splits option.splits list.splits if_splits)

lemma import_error_keeps_data:
  assumes "error (pickAndParseExcel pf st) = Some m"
  shows "m = failure_message \<and> pickAndParseExcel pf st = st\<lparr> error := Some failure_message \<rparr>"
proof (cases "try_body pf (setError None st)")
  case (Inl e)
  with assms failed_import [OF Inl] show ?thesis by simp
next
  case (Inr s')
  then have "error s' = None"
    using try_body_data [OF Inr] by (simp add: setError_def)
  with Inr assms show ?thesis
    by (simp add: pickAndParseExcel_def Let_def)
qed

text \<open>
  Claim C6. When the picked file is read and the spreadsheet library throws on its payload
  (in \<^verbatim>\<open>XLSX.read\<close> or in \<^verbatim>\<open>sheet_to_json\<close>), the handler leaves the state as it was but
  for \<^verbatim>\<open>error\<close>, which holds the fixed message: \<^verbatim>\<open>data\<close> is the collection loaded before.
  More generally, whenever the handler ends with an error set, it is that message and
  nothing else of the state has changed.
\<close>

theorem C6_decode_failure:
  "(getDocumentAsync pf = Inr res \<and> \<not> canceled res \<and> assets res = Some (file # others)
      \<and> readAsStringAsync pf (uri file) = Inr b64
      \<and> (XLSX_read pf b64 = Inl e
         \<or> (\<exists>wb. XLSX_read pf b64 = Inr wb \<and> sheet_to_json pf (first_sheet wb) = Inl e))
    \<longrightarrow> pickAndParseExcel pf st = st\<lparr> error := Some failure_message \<rparr>
        \<and> data (pickAndParseExcel pf st) = data st
        \<and> error (pickAndParseExcel pf st) =
            Some ''Failed to read that file. Make sure it's an .xlsx or .xls with a header row.'')
   \<and> (error (pickAndParseExcel pf st) = Some m
    \<longrightarrow> m = failure_message \<and> pickAndParseExcel pf st = st\<lparr> error := Some failure_message \<rparr>
        \<and> data (pickAndParseExcel pf st) = data st)"
proof -
  have a: "pickAndParseExcel pf st = st\<lparr> error := Some failure_message \<rparr>"
    if "getDocumentAsync pf = Inr res" "\<not> canceled res" "assets res = Some (file # others)"
      "readAsStringAsync pf (uri file) = Inr b64"
      "XLSX_read pf b64 = Inl e
         \<or> (\<exists>wb. XLSX_read pf b64 = Inr wb \<and> sheet_to_json pf (first_sheet wb) = Inl e)"
    using that by (intro failed_import try_body_decode_failure)
  have b: "x = st\<lparr> error := Some failure_message \<rparr> \<Longrightarrow> data x = data st
      \<and> error x = Some ''Failed to read that file. Make sure it's an .xlsx or .xls with a header row.''" for x
    by (simp add: failure_message_def)
  from a b import_error_keeps_data [of pf st m] show ?thesis by blast
qed

theorem C6_decode_failure_witness:
  "pickAndParseExcel
     \<lparr> getDocumentAsync = Inr \<lparr> canceled = False, assets = Some [\<lparr> uri = ''file:///notes.txt'' \<rparr>] \<rparr>,
       readAsStringAsync = (\<lambda>u. Inr ''aGVsbG8=''),
       XLSX_read = (\<lambda>b. Inl LibraryError),
       sheet_to_json = (\<lambda>ws :: unit option. Inr []) \<rparr>
     \<lparr> data = [cleaned_row 0 Map.empty], error = None, search = ''x'' \<rparr>
   = \<lparr> data = [cleaned_row 0 Map.empty], error = Some failure_message, search = ''x'' \<rparr>"
proof -
  let ?pf = "\<lparr> getDocumentAsync = Inr \<lparr> canceled = False, assets = Some [\<lparr> uri = ''file:///notes.txt'' \<rparr>] \<rparr>,
       readAsStringAsync = (\<lambda>u. Inr ''aGVsbG8=''),
       XLSX_read = (\<lambda>b. Inl LibraryError),
       sheet_to_json = (\<lambda>ws :: unit option. Inr []) \<rparr>"
  let ?st = "\<lparr> data = [cleaned_row 0 Map.empty], error = None, search = ''x'' \<rparr>"
  have h: "getDocumentAsync ?pf = Inr \<lparr> canceled = False, assets = Some [\<lparr> uri = ''file:///notes.txt'' \<rparr>] \<rparr>
      \<and> \<not> canceled \<lparr> canceled = False, assets = Some [\<lparr> uri = ''file:///notes.txt'' \<rparr>] \<rparr>
      \<and> assets \<lparr> canceled = False, assets = Some [\<lparr> uri = ''file:///notes.txt'' \<rparr>] \<rparr>
          = Some (\<lparr> uri = ''file:///notes.txt'' \<rparr> # [])
      \<and> readAsStringAsync ?pf (uri \<lparr> uri = ''file:///notes.txt'' \<rparr>) = Inr ''aGVsbG8=''
      \<and> (XLSX_read ?pf ''aGVsbG8='' = Inl LibraryError
         \<or> (\<exists>wb. XLSX_read ?pf ''aGVsbG8='' = Inr wb \<and> sheet_to_json ?pf (first_sheet wb) = Inl LibraryError))"
    by simp
  from C6_decode_failure [of ?pf "\<lparr> canceled = False, assets = Some [\<lparr> uri = ''file:///notes.txt'' \<rparr>] \<rparr>"
      "\<lparr> uri = ''file:///notes.txt'' \<rparr>" "[]" "''aGVsbG8=''" LibraryError ?st]
  have "pickAndParseExcel ?pf ?st = ?st\<lparr> error := Some failure_message \<rparr>"
    using h by blast
  then show ?thesis by simp
qed

section \<open>Search\<close>














lemma search_nonempty_query:
  "toLowerCase (trim q) \<noteq> [] \<Longrightarrow>
     TableScreen_filtered ds q =
       filter_js (\<lambda>r. some_includes (toLowerCase (trim q)) [name r, city r, cuisine r, state r, country r]) ds"
  unfolding TableScreen_filtered_def Let_def by (simp only: if_False)








lemma search_type_error:
  assumes "toLowerCase (trim q) \<noteq> []" and "name r = Num n" and "truthy (Num n)"
  shows "TableScreen_filtered (r # rs) q = Inl TypeError"
  using assms by (simp add: search_nonempty_query lor_def)



text \<open>
  Claim C3 fails on the code for a collection the import produces. A numeric cell under
  \<^verbatim>\<open>Name\<close> is kept as a number in the record; with a non-empty query,
  \<^verbatim>\<open>(x || '').toLowerCase()\<close> is then called on a number and throws, although the city of
  the record contains the query. (On a collection whose five searched fields are strings
  the filter returns the records the claim describes, \<open>search_text\<close>; with an empty or
  white-space query it returns the collection, \<open>search_empty_query\<close>.)
\<close>

theorem C3_search_type_error:
  "name (cleaned_row 0 [''Name'' \<mapsto> Num (Fin 1921), ''City'' \<mapsto> Str ''roma'']) = Num (Fin 1921)
   \<and> city (cleaned_row 0 [''Name'' \<mapsto> Num (Fin 1921), ''City'' \<mapsto> Str ''roma'']) = Str ''roma''
   \<and> TableScreen_filtered (cleaned [[''Name'' \<mapsto> Num (Fin 1921), ''City'' \<mapsto> Str ''roma'']]) ''roma''
       = Inl TypeError"
proof -
  let ?row = "[''Name'' \<mapsto> Num (Fin 1921), ''City'' \<mapsto> Str ''roma'']"
  have n: "name (cleaned_row 0 ?row) = Num (Fin 1921)"
    by (simp add: cleaned_row_def get_def lor_def)
  have c: "city (cleaned_row 0 ?row) = Str ''roma''"
    by (simp add: cleaned_row_def get_def lor_def)
  have l: "cleaned [?row] = [cleaned_row 0 ?row]"
    by (simp add: cleaned_def)
  have q: "toLowerCase (trim ''roma'') \<noteq> []"
    by (simp add: trim_def toLowerCase_def is_ws_def)
  have t: "truthy (Num (Fin 1921))"
    by simp
  have "TableScreen_filtered (cleaned [?row]) ''roma'' = Inl TypeError"
    unfolding l using q n t by (rule search_type_error)
  with n c show ?thesis by (intro conjI)
qed

end
